theory Spec2Isabelle
  imports Main "HOL-Library.AList" "HOL-Library.Sublist"
begin

section \<open>Python values, exceptions and the outside world\<close>

text \<open>
  The program is one Python script, \<^verbatim>\<open>app.py\<close>: a chat front end whose function
  \<^verbatim>\<open>generate_response\<close> runs one turn of a tool-calling dialogue and whose function
  \<^verbatim>\<open>query_icd_11_api\<close> is the one tool. Both talk to remote services. The model
  takes every remote answer from a record of oracles, turns every exception into a
  value, and logs every outgoing call in a trace, so that "which requests were issued"
  is a property of a list.

  Strings are HOL strings, one character for each code point: the model covers the
  texts whose code points are below 256.
\<close>

datatype error =
    KeyError string
  | IndexError
  | TypeError
  | AttributeError string
  | UnboundLocalError string
  | Fault string

text \<open>
  \<open>Fault\<close> is any exception raised by a library or remote call (connection refused,
  a body that is not JSON, a rejected request); the others are raised by the script's own
  statements: a missing dictionary key, \<^verbatim>\<open>[0]\<close> on an empty list, \<^verbatim>\<open>[0]\<close> on
  \<^verbatim>\<open>None\<close>, a missing attribute, a local variable read before assignment.
\<close>

datatype pyval = PyNone | PyStr string | PyOther

text \<open>
  What \<^verbatim>\<open>function_args.get("input")\<close> may give: \<^verbatim>\<open>None\<close>, a string, or a value
  of another JSON type (number, list, object), which has no \<^verbatim>\<open>split\<close>.
\<close>

record entity =
  theCode :: "string option"
  ident :: "string option"

text \<open>
  One element of \<^verbatim>\<open>destinationEntities\<close>, read only through
  \<^verbatim>\<open>code_.get('theCode')\<close> and \<^verbatim>\<open>code_.get('id')\<close>: an absent key reads as
  \<^verbatim>\<open>None\<close>, a present one holds a string.
\<close>

record http_response =
  status_code :: int
  json_body :: "error + entity list"

text \<open>
  \<open>json_body\<close> is \<^verbatim>\<open>response.json()['destinationEntities']\<close>: \<open>Inl\<close> when the body
  is not JSON or has no such key.
\<close>

type_synonym code_dict = "(string option \<times> string option) list"
type_synonym code_mappings = "(string \<times> code_dict) list"

text \<open>
  Python dictionaries keep insertion order, so they are association lists here;
  \<^const>\<open>AList.update\<close> replaces the value of an existing key in place and appends a new
  key at the end, as a Python assignment does.
\<close>

datatype lookup_return = RetNone | RetJson code_mappings

text \<open>
  The two things \<^verbatim>\<open>query_icd_11_api\<close> returns: \<^verbatim>\<open>None\<close>, or the string
  \<^verbatim>\<open>json.dumps(code_mappings)\<close>, kept as the dictionary it serialises.
\<close>

record tool_call =
  call_id :: string
  fn_name :: string
  fn_arguments :: string

record chat_message =
  content :: "string option"
  tool_calls :: "tool_call list option"

record usage =
  total_tokens :: int
  prompt_tokens :: int
  completion_tokens :: int

record completion =
  message :: chat_message
  finish_reason :: string
  usage :: usage

text \<open>
  A chat completion as the script reads it: \<^verbatim>\<open>choices[0].message\<close>,
  \<^verbatim>\<open>choices[0].finish_reason\<close> and \<^verbatim>\<open>usage\<close>. A completion that has come back is
  taken to have its first choice and its usage block.
\<close>

datatype msg =
    SystemMsg string
  | UserMsg string
  | AssistantMsg chat_message
  | ToolMsg string string lookup_return

text \<open>
  The entries of \<^verbatim>\<open>st.session_state["messages"]\<close>: the dictionaries with role
  system, user and tool (the latter with \<^verbatim>\<open>tool_call_id\<close>, \<^verbatim>\<open>name\<close>,
  \<^verbatim>\<open>content\<close>), and the assistant's raw message object.
\<close>

datatype event =
    Post string
  | Get string string
  | ChatCreate "msg list" bool
  | Call string pyval

text \<open>
  The trace: \<open>Post url\<close> for \<^verbatim>\<open>requests.post\<close>, \<open>Get url token\<close> for
  \<^verbatim>\<open>requests.get\<close> with its bearer token, \<open>ChatCreate messages with_tools\<close> for
  \<^verbatim>\<open>client.chat.completions.create\<close> (with or without \<^verbatim>\<open>tools=\<close>), and
  \<open>Call name argument\<close> for \<^verbatim>\<open>function_to_call(input=...)\<close>.
\<close>

record env =
  chat_create :: "msg list \<Rightarrow> bool \<Rightarrow> error + completion"
  loads :: "string \<Rightarrow> error + (string \<rightharpoonup> pyval)"
  token_post :: "error + string option"
  search_get :: "string \<Rightarrow> string \<Rightarrow> error + http_response"
  exc_str :: "error \<Rightarrow> string"
  deployment :: string

text \<open>
  The oracles of one turn. \<open>chat_create\<close> is building the client and calling
  \<^verbatim>\<open>create\<close>; \<open>loads\<close> is \<^verbatim>\<open>json.loads\<close> on the tool call's arguments (\<open>Inl\<close>
  also when the result is not an object); \<open>token_post\<close> is
  \<^verbatim>\<open>requests.post(TOKEN_ENDPOINT, ...).json()\<close> read at \<^verbatim>\<open>'access_token'\<close>
  (\<open>Inr None\<close>: the key is missing); \<open>search_get url token\<close> is \<^verbatim>\<open>requests.get\<close>;
  \<open>exc_str\<close> is Python's \<^verbatim>\<open>str\<close> on an exception; \<open>deployment\<close> is
  \<^verbatim>\<open>ENV["AZURE_OPENAI_DEPLOYMENT_NAME"]\<close>.
\<close>

section \<open>The lookup tool\<close>

definition TOKEN_ENDPOINT :: string where
  "TOKEN_ENDPOINT = ''https://icdaccessmanagement.who.int/connect/token''"

definition search_url :: "string \<Rightarrow> string" where
  "search_url word = ''https://id.who.int/icd/release/11/2019-04/mms/search?q='' @ word"

definition isspace :: "char \<Rightarrow> bool" where
  "isspace c \<longleftrightarrow> c \<in> set [CHR '' '', CHR 0x09, CHR 0x0A, CHR 0x0B, CHR 0x0C, CHR 0x0D,
                             CHR 0x1C, CHR 0x1D, CHR 0x1E, CHR 0x1F, CHR 0x85, CHR 0xA0]"

text \<open>
  \<open>isspace\<close> holds of the code points below 256 that Python counts as whitespace: the
  space, \<^verbatim>\<open>\t \n \v \f \r\<close>, the four separators 0x1C to 0x1F, the next-line
  character 0x85 and the no-break space 0xA0.

  \<^verbatim>\<open>input.split()\<close>: the maximal runs of non-whitespace characters, in order.
  \<open>split_acc\<close> carries the token being read.
\<close>

fun split_acc :: "string \<Rightarrow> string \<Rightarrow> string list" where
  "split_acc acc [] = (if acc = [] then [] else [acc])"
| "split_acc acc (c # cs) =
     (if isspace c then (if acc = [] then split_acc [] cs else acc # split_acc [] cs)
      else split_acc (acc @ [c]) cs)"

definition split :: "string \<Rightarrow> string list" where
  "split s = split_acc [] s"

definition replace_comma :: "string \<Rightarrow> string" where
  "replace_comma word = filter (\<lambda>c. c \<noteq> CHR '','') word"

text \<open>
  The inner loop, \<^verbatim>\<open>code_mappings[word].update({code: link})\<close> for every entity:
  \<^verbatim>\<open>code_mappings[word]\<close> raises \<^verbatim>\<open>KeyError\<close> when \<open>word\<close> is not a key.
\<close>

fun record_codes :: "code_mappings \<Rightarrow> string \<Rightarrow> entity list \<Rightarrow> error + code_mappings" where
  "record_codes cm word [] = Inr cm"
| "record_codes cm word (ent # rest) =
     (case map_of cm word of
        None \<Rightarrow> Inl (KeyError word)
      | Some inner \<Rightarrow>
          record_codes (AList.update word (AList.update (theCode ent) (ident ent) inner) cm)
            word rest)"

text \<open>
  The loop over the tokens. Every path through its body returns or raises, so the body
  runs for the first token only and the equation for a non-empty list does not recurse;
  past the end of an empty list the function returns \<^verbatim>\<open>None\<close>. The key is set under
  the token as split, then \<open>word\<close> is rebound to the token without its commas and used
  for the query and for the update.
\<close>

fun lookup_loop ::
  "env \<Rightarrow> string \<Rightarrow> code_mappings \<Rightarrow> string list \<Rightarrow> event list \<times> (error + lookup_return)" where
  "lookup_loop e token code_mappings [] = ([], Inr RetNone)"
| "lookup_loop e token code_mappings (w # ws) =
     (let cm1 = AList.update w [] code_mappings;
          word = replace_comma w;
          url = search_url word
      in case search_get e url token of
           Inl err \<Rightarrow> ([Get url token], Inl err)
         | Inr response \<Rightarrow>
             if status_code response = 200 then
               (case json_body response of
                  Inl err \<Rightarrow> ([Get url token], Inl err)
                | Inr potential_codes \<Rightarrow>
                    (case record_codes cm1 word potential_codes of
                       Inl err \<Rightarrow> ([Get url token], Inl err)
                     | Inr cm2 \<Rightarrow> ([Get url token], Inr (RetJson cm2))))
             else ([Get url token], Inr RetNone))"

definition query_icd_11_api :: "env \<Rightarrow> pyval \<Rightarrow> event list \<times> (error + lookup_return)" where
  "query_icd_11_api e input =
     (case token_post e of
        Inl err \<Rightarrow> ([Post TOKEN_ENDPOINT], Inl err)
      | Inr None \<Rightarrow> ([Post TOKEN_ENDPOINT], Inl (KeyError ''access_token''))
      | Inr (Some token) \<Rightarrow>
          (case input of
             PyStr s \<Rightarrow>
               (let (tr, r) = lookup_loop e token [] (split s)
                in (Post TOKEN_ENDPOINT # tr, r))
           | _ \<Rightarrow> ([Post TOKEN_ENDPOINT], Inl (AttributeError ''split''))))"

section \<open>One turn of the dialogue\<close>

record session_state =
  generated :: "string option list"
  past :: "string list"
  messages :: "msg list"
  model_name :: "string list"
  number_tokens :: "int list option"

text \<open>
  The keys of \<^verbatim>\<open>st.session_state\<close>. \<^verbatim>\<open>"number_tokens"\<close> exists only once the
  clear button has been pressed.
\<close>

datatype try_exit =
    Return4 "string option" int int int
  | EndOfTry "string option"
  | Except error

text \<open>
  How control leaves the \<^verbatim>\<open>try\<close> block: by its \<^verbatim>\<open>return\<close> statement, by
  reaching its end with \<^verbatim>\<open>response\<close> bound, or by an exception.
\<close>

datatype outcome =
    Returned "string option" "int option" "int option" "int option"
  | Raised error

definition available_functions ::
  "string \<rightharpoonup> (env \<Rightarrow> pyval \<Rightarrow> event list \<times> (error + lookup_return))" where
  "available_functions = [''query_icd_11_api'' \<mapsto> query_icd_11_api]"

definition dict_get :: "(string \<rightharpoonup> pyval) \<Rightarrow> string \<Rightarrow> pyval" where
  "dict_get d k = (case d k of None \<Rightarrow> PyNone | Some v \<Rightarrow> v)"

definition append_message :: "msg \<Rightarrow> session_state \<Rightarrow> session_state" where
  "append_message m s = s\<lparr>messages := messages s @ [m]\<rparr>"

text \<open>
  The \<^verbatim>\<open>try\<close> block, entered with the user's message already appended. It gives the
  session, the trace, the local \<^verbatim>\<open>completion\<close> if it was bound, and the exit.
\<close>

definition try_block ::
  "env \<Rightarrow> session_state \<Rightarrow> session_state \<times> event list \<times> completion option \<times> try_exit" where
  "try_block e s0 =
     (let tr1 = [ChatCreate (messages s0) True]
      in case chat_create e (messages s0) True of
           Inl err \<Rightarrow> (s0, tr1, None, Except err)
         | Inr completion \<Rightarrow>
             (let response = content (message completion)
              in if finish_reason completion = ''tool_calls'' then
                   (let s1 = append_message (AssistantMsg (message completion)) s0
                    in case tool_calls (message completion) of
                         None \<Rightarrow> (s1, tr1, Some completion, Except TypeError)
                       | Some [] \<Rightarrow> (s1, tr1, Some completion, Except IndexError)
                       | Some (tc # _) \<Rightarrow>
                           (let function_name = fn_name tc
                            in case available_functions function_name of
                                 None \<Rightarrow> (s1, tr1, Some completion, Except (KeyError function_name))
                               | Some function_to_call \<Rightarrow>
                                   (case loads e (fn_arguments tc) of
                                      Inl err \<Rightarrow> (s1, tr1, Some completion, Except err)
                                    | Inr function_args \<Rightarrow>
                                        (let arg = dict_get function_args ''input'';
                                             (tr2, r) = function_to_call e arg;
                                             tr3 = tr1 @ [Call function_name arg] @ tr2
                                         in case r of
                                              Inl err \<Rightarrow> (s1, tr3, Some completion, Except err)
                                            | Inr tool_response \<Rightarrow>
                                                (let s2 = append_message
                                                            (ToolMsg (call_id tc) function_name tool_response) s1;
                                                     tr4 = tr3 @ [ChatCreate (messages s2) False]
                                                 in case chat_create e (messages s2) False of
                                                      Inl err \<Rightarrow> (s2, tr4, Some completion, Except err)
                                                    | Inr second \<Rightarrow>
                                                        (s2, tr4, Some completion,
                                                         Return4 (content (message second))
                                                           (total_tokens (usage completion))
                                                           (prompt_tokens (usage completion))
                                                           (completion_tokens (usage completion))))))))
                 else (s0, tr1, Some completion, EndOfTry response)))"

text \<open>
  The three statements after the \<^verbatim>\<open>try\<close>/\<^verbatim>\<open>except\<close>, reached from the end of the
  \<^verbatim>\<open>try\<close> block and from the end of the handler alike: they read
  \<^verbatim>\<open>completion.usage\<close>, which raises \<^verbatim>\<open>UnboundLocalError\<close> when \<open>completion\<close>
  was never bound, and overwrite whatever the handler put in the three counters.
\<close>

definition after_try :: "completion option \<Rightarrow> string option \<Rightarrow> outcome" where
  "after_try completion response =
     (case completion of
        None \<Rightarrow> Raised (UnboundLocalError ''completion'')
      | Some c \<Rightarrow>
          Returned response (Some (total_tokens (usage c))) (Some (prompt_tokens (usage c)))
            (Some (completion_tokens (usage c))))"

definition handler_text :: "env \<Rightarrow> error \<Rightarrow> string" where
  "handler_text e err = ''The API could not handle this content: '' @ exc_str e err"

definition generate_response ::
  "env \<Rightarrow> string \<Rightarrow> session_state \<Rightarrow> session_state \<times> event list \<times> outcome" where
  "generate_response e prompt s =
     (let (s', tr, completion, exit) = try_block e (append_message (UserMsg prompt) s)
      in (s', tr,
          case exit of
            Return4 second_response t p c \<Rightarrow> Returned second_response (Some t) (Some p) (Some c)
          | EndOfTry response \<Rightarrow> after_try completion response
          | Except err \<Rightarrow> after_try completion (Some (handler_text e err))))"

section \<open>The script around a turn\<close>

definition seed_message :: "string \<Rightarrow> msg" where
  "seed_message system_prompt = SystemMsg system_prompt"

text \<open>
  Streamlit runs the script from the top on every interaction. A session that has no keys
  yet gets all four; later runs find them and leave them alone.
\<close>

definition initialise :: "string \<Rightarrow> session_state option \<Rightarrow> session_state" where
  "initialise system_prompt st =
     (case st of
        None \<Rightarrow> \<lparr>generated = [], past = [], messages = [seed_message system_prompt],
                  model_name = [], number_tokens = None\<rparr>
      | Some s \<Rightarrow> s)"

definition clear_conversation :: "string \<Rightarrow> session_state \<Rightarrow> session_state" where
  "clear_conversation system_prompt s =
     s\<lparr>generated := [], past := [], messages := [seed_message system_prompt],
       number_tokens := Some [], model_name := []\<rparr>"

record interaction =
  system_prompt :: string
  clear_button :: bool
  submit_button :: bool
  user_input :: string
  world :: env

text \<open>
  One run of the script: the sidebar's prompt text, the two buttons, the text box, and
  the answers the outside world gives during this run. When \<^verbatim>\<open>generate_response\<close>
  raises, the run stops there and the three appends after it do not happen.
\<close>

definition script_run ::
  "interaction \<Rightarrow> session_state option \<Rightarrow> session_state \<times> event list \<times> error option" where
  "script_run i st =
     (let s1 = initialise (system_prompt i) st;
          s2 = (if clear_button i then clear_conversation (system_prompt i) s1 else s1)
      in if submit_button i \<and> user_input i \<noteq> [] then
           (let (s3, tr, out) = generate_response (world i) (user_input i) s2
            in case out of
                 Raised err \<Rightarrow> (s3, tr, Some err)
               | Returned output t p c \<Rightarrow>
                   (s3\<lparr>past := past s3 @ [user_input i],
                       generated := generated s3 @ [output],
                       model_name := model_name s3 @ [deployment (world i)]\<rparr>, tr, None))
         else (s2, [], None))"

fun run_script :: "session_state option \<Rightarrow> interaction list \<Rightarrow> session_state option" where
  "run_script st [] = st"
| "run_script st (i # is) = run_script (Some (fst (script_run i st))) is"

text \<open>
  Two observers of a turn: whether a trace entry is a call of the tool, and whether the
  \<^verbatim>\<open>try\<close> block of a turn is left by an exception.
\<close>

fun is_call :: "event \<Rightarrow> bool" where
  "is_call (Call _ _) = True"
| "is_call _ = False"

definition turn_fails :: "env \<Rightarrow> string \<Rightarrow> session_state \<Rightarrow> bool" where
  "turn_fails e prompt s =
     (case snd (snd (snd (try_block e (append_message (UserMsg prompt) s)))) of
        Except _ \<Rightarrow> True
      | _ \<Rightarrow> False)"

section \<open>Example worlds\<close>

text \<open>
  Concrete answers of the outside world, used to run the model on the examples of the
  specification. \<open>py_str\<close> renders an exception as Python's \<^verbatim>\<open>str\<close> does for
  these examples: a \<^verbatim>\<open>KeyError\<close> prints its key in quotes.
\<close>

fun py_str :: "error \<Rightarrow> string" where
  "py_str (KeyError k) = [CHR 0x27] @ k @ [CHR 0x27]"
| "py_str IndexError = ''list index out of range''"
| "py_str TypeError = ''object is not subscriptable''"
| "py_str (AttributeError a) = ''object has no attribute '' @ a"
| "py_str (UnboundLocalError v) = ''cannot access local variable '' @ v"
| "py_str (Fault m) = m"

definition quiet_env :: env where
  "quiet_env = \<lparr>chat_create = (\<lambda>_ _. Inl (Fault ''connection error'')),
                 loads = (\<lambda>_. Inl (Fault ''invalid json'')),
                 token_post = Inr (Some ''t0''),
                 search_get = (\<lambda>_ _. Inl (Fault ''connection error'')),
                 exc_str = py_str,
                 deployment = ''gpt-4''\<rparr>"

definition fever_env :: env where
  "fever_env = quiet_env\<lparr>search_get := (\<lambda>url _.
      if url = search_url ''fever''
      then Inr \<lparr>status_code = 200,
                json_body = Inr [\<lparr>theCode = Some ''MG26'', ident = Some ''http://id.who.int/icd/1''\<rparr>]\<rparr>
      else Inl (Fault ''connection error''))\<rparr>"

definition status_env :: "int \<Rightarrow> env" where
  "status_env code = quiet_env\<lparr>search_get := (\<lambda>_ _. Inr \<lparr>status_code = code, json_body = Inr []\<rparr>)\<rparr>"

definition fever_call :: tool_call where
  \<open>fever_call = \<lparr>call_id = ''call_1'', fn_name = ''query_icd_11_api'',
                  fn_arguments = ''{"input": "fever"}''\<rparr>\<close>

definition cough_call :: tool_call where
  \<open>cough_call = \<lparr>call_id = ''call_2'', fn_name = ''query_icd_11_api'',
                  fn_arguments = ''{"input": "cough"}''\<rparr>\<close>

definition tool_request :: completion where
  "tool_request = \<lparr>message = \<lparr>content = None, tool_calls = Some [fever_call, cough_call]\<rparr>,
                    finish_reason = ''tool_calls'',
                    usage = \<lparr>total_tokens = 30, prompt_tokens = 20, completion_tokens = 10\<rparr>\<rparr>"

definition final_answer :: completion where
  "final_answer = \<lparr>message = \<lparr>content = Some ''The suggested code is MG26'', tool_calls = None\<rparr>,
                    finish_reason = ''stop'',
                    usage = \<lparr>total_tokens = 50, prompt_tokens = 45, completion_tokens = 5\<rparr>\<rparr>"

definition dialogue_env :: env where
  "dialogue_env = fever_env\<lparr>
     chat_create := (\<lambda>_ with_tools. if with_tools then Inr tool_request else Inr final_answer),
     loads := (\<lambda>s. if s = fn_arguments fever_call then Inr [''input'' \<mapsto> PyStr ''fever'']
                    else if s = fn_arguments cough_call then Inr [''input'' \<mapsto> PyStr ''cough'']
                    else Inl (Fault ''invalid json''))\<rparr>"

definition direct_env :: env where
  "direct_env = quiet_env\<lparr>chat_create := (\<lambda>_ _. Inr final_answer)\<rparr>"

definition s0 :: session_state where
  "s0 = initialise ''You are an assistant to a clinical coder.'' None"

definition hello_turn :: interaction where
  "hello_turn = \<lparr>system_prompt = ''You are an assistant to a clinical coder.'',
                  clear_button = False, submit_button = True, user_input = ''hello'',
                  world = direct_env\<rparr>"

definition fever_turn :: interaction where
  "fever_turn = \<lparr>system_prompt = ''Edited prompt'',
                  clear_button = False, submit_button = True, user_input = ''code fever'',
                  world = dialogue_env\<rparr>"

section \<open>Properties of the lookup tool\<close>

lemmas lookup_simps = quiet_env_def fever_env_def status_env_def query_icd_11_api_def
  Spec2Isabelle.split_def isspace_def replace_comma_def search_url_def TOKEN_ENDPOINT_def Let_def

lemma record_codes_keys:
  "record_codes cm word ents = Inr cm' \<Longrightarrow> map fst cm' = map fst cm"
proof (induction ents arbitrary: cm)
  case Nil
  then show ?case by simp
next
  case (Cons ent rest)
  then show ?case
    by (auto split: option.splits simp: update_keys dest!: map_of_SomeD intro: rev_image_eqI)
qed

lemma lookup_loop_RetJson:
  assumes "lookup_loop e token [] toks = (tr, Inr (RetJson cm))"
  shows "\<exists>w ws resp. toks = w # ws \<and> map fst cm = [w]
           \<and> tr = [Get (search_url (replace_comma w)) token]
           \<and> search_get e (search_url (replace_comma w)) token = Inr resp
           \<and> status_code resp = 200"
proof (cases toks)
  case Nil
  with assms show ?thesis by simp
next
  case (Cons w ws)
  with assms show ?thesis
    by (auto simp: Let_def split: sum.splits if_splits dest!: record_codes_keys)
qed

lemma split_acc_spaces: "\<forall>c\<in>set inp. isspace c \<Longrightarrow> split_acc [] inp = []"
  by (induction inp) simp_all

lemma non_200_None:
  assumes "token_post e = Inr (Some token)"
    and "split inp = w # ws"
    and "search_get e (search_url (replace_comma w)) token = Inr resp"
    and "status_code resp \<noteq> 200"
  shows "query_icd_11_api e (PyStr inp) =
           ([Post TOKEN_ENDPOINT, Get (search_url (replace_comma w)) token], Inr RetNone)"
  using assms by (simp add: query_icd_11_api_def Let_def)



text \<open>
  Claim C1. For the input "fever, cough" the function splits off the token "fever,",
  strips its comma and queries "fever" first, and never queries "cough"; the claim says
  that on a 200 answer with the one entity MG26 it returns the mapping of "fever" to that
  code. The code does issue exactly that one query, but the key it created is the token
  with its comma, and the update goes through the stripped word: with an entity to
  record, \<^verbatim>\<open>code_mappings["fever"]\<close> raises \<^verbatim>\<open>KeyError\<close> and nothing is returned.
\<close>

theorem fever_comma_cough_raises_KeyError:
  "query_icd_11_api fever_env (PyStr ''fever, cough'') =
     ([Post TOKEN_ENDPOINT, Get (search_url ''fever'') ''t0''], Inl (KeyError ''fever''))"
  by (simp add: lookup_simps)

text \<open>
  Claim C2, as stated: when the first token's search request returns a non-200 status
  the lookup returns a failure signal that carries the failed token and the status code.
  It does not: the code returns a bare \<^verbatim>\<open>None\<close>, the same value for the token
  "aspirin" with status 500 and for the token "fever" with status 404.
\<close>

theorem lookup_failure_is_bare_None:
  "query_icd_11_api (status_env 500) (PyStr ''aspirin overdose'') =
     ([Post TOKEN_ENDPOINT, Get (search_url ''aspirin'') ''t0''], Inr RetNone)
   \<and> query_icd_11_api (status_env 404) (PyStr ''fever'') =
     ([Post TOKEN_ENDPOINT, Get (search_url ''fever'') ''t0''], Inr RetNone)"
  by (simp add: lookup_simps)

text \<open>
  Claim C2, amended: for every input text, when the search request for the first token
  returns a non-200 status, the lookup stops at once and returns \<^verbatim>\<open>None\<close>, which
  is not a mapping (not even an empty one) and carries neither the token nor the status
  code; the only requests issued are the authentication and that one search, so no later
  token is queried.
\<close>

theorem lookup_non_200_returns_None:
  assumes "token_post e = Inr (Some token)"
    and "split inp = w # ws"
    and "search_get e (search_url (replace_comma w)) token = Inr resp"
    and "status_code resp \<noteq> 200"
  shows "query_icd_11_api e (PyStr inp) =
           ([Post TOKEN_ENDPOINT, Get (search_url (replace_comma w)) token], Inr RetNone)"
  using assms by (rule non_200_None)

theorem lookup_non_200_returns_None_witness:
  "query_icd_11_api (status_env 500) (PyStr ''aspirin overdose'') =
     ([Post TOKEN_ENDPOINT, Get (search_url (replace_comma ''aspirin'')) ''t0''], Inr RetNone)"
  using lookup_non_200_returns_None
          [where e = "status_env 500" and token = "''t0''" and inp = "''aspirin overdose''"
             and w = "''aspirin''" and ws = "[''overdose'']"
             and resp = "\<lparr>status_code = 500, json_body = Inr []\<rparr>"]
  by (simp add: lookup_simps)

text \<open>
  Claim C3. Whenever the lookup returns a mapping, its keys are among the
  whitespace-split tokens of the input and there is at most one of them: the one key is
  the first token, its search request returned 200, and the trace shows the
  authentication and that single search, so no later token was queried.
\<close>

theorem lookup_success_single_key:
  assumes "query_icd_11_api e (PyStr inp) = (tr, Inr (RetJson cm))"
  shows "\<exists>token w ws resp.
           token_post e = Inr (Some token) \<and> split inp = w # ws \<and> map fst cm = [w]
           \<and> set (map fst cm) \<subseteq> set (split inp) \<and> length cm \<le> 1
           \<and> search_get e (search_url (replace_comma w)) token = Inr resp
           \<and> status_code resp = 200
           \<and> tr = [Post TOKEN_ENDPOINT, Get (search_url (replace_comma w)) token]"
proof -
  from assms obtain token tr' where tok: "token_post e = Inr (Some token)"
    and loop: "lookup_loop e token [] (split inp) = (tr', Inr (RetJson cm))"
    and tr: "tr = Post TOKEN_ENDPOINT # tr'"
    by (auto simp: query_icd_11_api_def split: sum.splits option.splits prod.splits)
  from lookup_loop_RetJson [OF loop] obtain w ws resp where
    w: "split inp = w # ws" "map fst cm = [w]" "tr' = [Get (search_url (replace_comma w)) token]"
       "search_get e (search_url (replace_comma w)) token = Inr resp" "status_code resp = 200"
    by (elim exE conjE)
  from w(2) have "length cm \<le> 1" "set (map fst cm) \<subseteq> set (split inp)"
    using w(1) by (auto simp: map_eq_Cons_conv)
  with tok tr w show ?thesis by auto
qed

theorem lookup_success_single_key_witness:
  "query_icd_11_api fever_env (PyStr ''fever cough'') =
     ([Post TOKEN_ENDPOINT, Get (search_url ''fever'') ''t0''],
      Inr (RetJson [(''fever'', [(Some ''MG26'', Some ''http://id.who.int/icd/1'')])]))
   \<and> split ''fever cough'' = [''fever'', ''cough'']"
proof -
  have run: "query_icd_11_api fever_env (PyStr ''fever cough'') =
     ([Post TOKEN_ENDPOINT, Get (search_url ''fever'') ''t0''],
      Inr (RetJson [(''fever'', [(Some ''MG26'', Some ''http://id.who.int/icd/1'')])]))"
    by (simp add: lookup_simps)
  from lookup_success_single_key [OF run] show ?thesis
    using run by (simp add: Spec2Isabelle.split_def isspace_def)
qed

text \<open>
  Claim C10. For every input string that is empty or consists only of whitespace,
  \<^verbatim>\<open>query_icd_11_api\<close> performs the authentication request and issues no search
  request, whatever the authentication answers. With the token obtained it returns
  \<^verbatim>\<open>None\<close>, since the loop body never runs: the very value it returns after a
  non-200 search, so the two outcomes cannot be told apart. (The authentication comes
  before the loop: when it raises, or when its payload has no \<^verbatim>\<open>access_token\<close>,
  that exception leaves the function, for a blank input as for any other.)
\<close>

theorem blank_input_returns_None:
  assumes "\<forall>c\<in>set inp. isspace c"
  shows "fst (query_icd_11_api e (PyStr inp)) = [Post TOKEN_ENDPOINT]
         \<and> (token_post e = Inr (Some token) \<longrightarrow>
              query_icd_11_api e (PyStr inp) = ([Post TOKEN_ENDPOINT], Inr RetNone))
         \<and> (token_post e = Inr (Some token) \<and> token_post e' = Inr (Some token')
              \<and> split inp' = w # ws
              \<and> search_get e' (search_url (replace_comma w)) token' = Inr resp
              \<and> status_code resp \<noteq> 200 \<longrightarrow>
              snd (query_icd_11_api e' (PyStr inp')) = snd (query_icd_11_api e (PyStr inp)))
         \<and> (token_post e = Inl err \<longrightarrow>
              query_icd_11_api e (PyStr inp) = ([Post TOKEN_ENDPOINT], Inl err))
         \<and> (token_post e = Inr None \<longrightarrow>
              query_icd_11_api e (PyStr inp) =
                ([Post TOKEN_ENDPOINT], Inl (KeyError ''access_token'')))"
proof -
  have blank: "split inp = []"
    using split_acc_spaces [OF assms] by (simp add: Spec2Isabelle.split_def)
  have a: "fst (query_icd_11_api e (PyStr inp)) = [Post TOKEN_ENDPOINT]"
    using blank by (auto simp: query_icd_11_api_def split: sum.splits option.splits)
  have b: "token_post e = Inr (Some token) \<longrightarrow>
              query_icd_11_api e (PyStr inp) = ([Post TOKEN_ENDPOINT], Inr RetNone)"
    using blank by (simp add: query_icd_11_api_def)
  have c: "token_post e = Inl err \<longrightarrow>
              query_icd_11_api e (PyStr inp) = ([Post TOKEN_ENDPOINT], Inl err)"
    by (simp add: query_icd_11_api_def)
  have d: "token_post e = Inr (Some token) \<and> token_post e' = Inr (Some token')
              \<and> split inp' = w # ws
              \<and> search_get e' (search_url (replace_comma w)) token' = Inr resp
              \<and> status_code resp \<noteq> 200 \<longrightarrow>
              snd (query_icd_11_api e' (PyStr inp')) = snd (query_icd_11_api e (PyStr inp))"
    using b non_200_None [of e' token' inp' w ws resp] by auto
  have n: "token_post e = Inr None \<longrightarrow>
              query_icd_11_api e (PyStr inp) =
                ([Post TOKEN_ENDPOINT], Inl (KeyError ''access_token''))"
    by (simp add: query_icd_11_api_def)
  from a b c d n show ?thesis by blast
qed

theorem blank_input_returns_None_witness:
  "query_icd_11_api quiet_env (PyStr [CHR '' '', CHR 0x09, CHR 0xA0]) =
     ([Post TOKEN_ENDPOINT], Inr RetNone)
   \<and> snd (query_icd_11_api (status_env 500) (PyStr ''aspirin overdose'')) =
     snd (query_icd_11_api quiet_env (PyStr [CHR '' '', CHR 0x09, CHR 0xA0]))"
  using blank_input_returns_None
          [where inp = "[CHR '' '', CHR 0x09, CHR 0xA0]" and e = quiet_env and token = "''t0''"
             and e' = "status_env 500" and token' = "''t0''" and inp' = "''aspirin overdose''"
             and w = "''aspirin''" and ws = "[''overdose'']"
             and resp = "\<lparr>status_code = 500, json_body = Inr []\<rparr>"]
  by (simp add: lookup_simps)

section \<open>Properties of a turn\<close>

lemmas turn_simps = lookup_simps dialogue_env_def direct_env_def tool_request_def
  final_answer_def fever_call_def cough_call_def s0_def initialise_def seed_message_def
  generate_response_def try_block_def after_try_def handler_text_def append_message_def
  available_functions_def dict_get_def

lemmas script_simps = turn_simps hello_turn_def fever_turn_def script_run_def

lemma try_block_prefix: "prefix (messages s) (messages (fst (try_block e s)))"
  by (auto simp: try_block_def Let_def append_message_def case_prod_unfold
           split: sum.splits option.splits list.splits)

lemma generate_response_prefix:
  "prefix (messages s @ [UserMsg prompt]) (messages (fst (generate_response e prompt s)))"
  using try_block_prefix [of "append_message (UserMsg prompt) s" e]
  by (simp add: generate_response_def case_prod_unfold append_message_def Let_def)

lemma generate_response_first_event:
  "\<exists>rest. fst (snd (generate_response e prompt s)) =
            ChatCreate (messages s @ [UserMsg prompt]) True # rest"
  by (auto simp: generate_response_def try_block_def Let_def append_message_def case_prod_unfold
           split: sum.splits option.splits list.splits)

text \<open>
  Claim C4. The claim: every exception of a turn is caught inside
  \<^verbatim>\<open>generate_response\<close>, which then returns the error text with the three usage
  counters absent. The handler does set the text and the three \<^verbatim>\<open>None\<close>s, but it
  does not return: control falls through to the three assignments from
  \<^verbatim>\<open>completion.usage\<close> after the \<^verbatim>\<open>try\<close> statement. When the first LLM call is
  what failed, \<open>completion\<close> is unbound and \<^verbatim>\<open>UnboundLocalError\<close> leaves the function;
  when the failure came later (here the token payload has no \<^verbatim>\<open>access_token\<close>), the
  error text is returned with the first call's counters, not with \<^verbatim>\<open>None\<close>.
\<close>

theorem handler_falls_through_to_usage:
  "generate_response quiet_env ''code fever'' s0 =
     (s0\<lparr>messages := messages s0 @ [UserMsg ''code fever'']\<rparr>,
      [ChatCreate (messages s0 @ [UserMsg ''code fever'']) True],
      Raised (UnboundLocalError ''completion''))
   \<and> generate_response (dialogue_env\<lparr>token_post := Inr None\<rparr>) ''code fever'' s0 =
     (s0\<lparr>messages := messages s0 @ [UserMsg ''code fever'', AssistantMsg (message tool_request)]\<rparr>,
      [ChatCreate (messages s0 @ [UserMsg ''code fever'']) True,
       Call ''query_icd_11_api'' (PyStr ''fever''), Post TOKEN_ENDPOINT],
      Returned (Some (''The API could not handle this content: '' @ py_str (KeyError ''access_token'')))
        (Some 30) (Some 20) (Some 10))"
  by (simp add: turn_simps)




text \<open>
  Claim C6. In every turn whose first LLM response is a direct answer (its finish
  signal is not \<^verbatim>\<open>"tool_calls"\<close>), the trace is that one LLM call and nothing else,
  so the lookup is never invoked, and the turn returns the response's content with the
  usage counters of that call.
\<close>

theorem direct_answer_no_call:
  assumes "chat_create e (messages s @ [UserMsg prompt]) True = Inr c"
    and "finish_reason c \<noteq> ''tool_calls''"
  shows "generate_response e prompt s =
           (append_message (UserMsg prompt) s,
            [ChatCreate (messages s @ [UserMsg prompt]) True],
            Returned (content (message c)) (Some (total_tokens (usage c)))
              (Some (prompt_tokens (usage c))) (Some (completion_tokens (usage c))))
         \<and> filter is_call (fst (snd (generate_response e prompt s))) = []"
  using assms
  by (simp add: generate_response_def try_block_def Let_def append_message_def after_try_def)

theorem direct_answer_no_call_witness:
  "generate_response direct_env ''hello'' s0 =
     (append_message (UserMsg ''hello'') s0,
      [ChatCreate (messages s0 @ [UserMsg ''hello'']) True],
      Returned (Some ''The suggested code is MG26'') (Some 50) (Some 45) (Some 5))"
  using direct_answer_no_call
          [where e = direct_env and s = s0 and prompt = "''hello''" and c = final_answer]
  by (simp add: direct_env_def quiet_env_def final_answer_def)

text \<open>
  Claim C8. When a turn fails (its \<^verbatim>\<open>try\<close> block is left by an exception, whether
  the turn then returns the handler's text or raises), the session's message sequence
  still begins with the old messages followed by the user's message: nothing is rolled
  back. The next turn's first LLM call is made with that sequence plus the next user
  message, so it includes the earlier one.
\<close>

theorem user_message_not_rolled_back:
  assumes "turn_fails e prompt s"
  shows "prefix (messages s @ [UserMsg prompt]) (messages (fst (generate_response e prompt s)))
         \<and> (\<exists>rest. fst (snd (generate_response e' prompt' (fst (generate_response e prompt s)))) =
               ChatCreate (messages (fst (generate_response e prompt s)) @ [UserMsg prompt']) True
                 # rest)
         \<and> UserMsg prompt \<in> set (messages (fst (generate_response e prompt s)) @ [UserMsg prompt'])"
proof -
  have p: "prefix (messages s @ [UserMsg prompt]) (messages (fst (generate_response e prompt s)))"
    by (rule generate_response_prefix)
  then have "UserMsg prompt \<in> set (messages (fst (generate_response e prompt s)))"
    by (auto simp: prefix_def)
  with p generate_response_first_event show ?thesis by simp
qed

theorem user_message_not_rolled_back_witness:
  "turn_fails quiet_env ''code fever'' s0
   \<and> messages (fst (generate_response quiet_env ''code fever'' s0)) =
       [SystemMsg ''You are an assistant to a clinical coder.'', UserMsg ''code fever'']
   \<and> UserMsg ''code fever'' \<in>
       set (messages (fst (generate_response quiet_env ''code fever'' s0)) @ [UserMsg ''again''])"
proof -
  have f: "turn_fails quiet_env ''code fever'' s0"
    by (simp add: turn_fails_def turn_simps)
  from user_message_not_rolled_back [OF f, of direct_env "''again''"] f show ?thesis
    by (simp add: turn_simps)
qed

section \<open>Properties of the session\<close>

lemma script_run_prefix:
  "\<not> clear_button i \<Longrightarrow> prefix (messages s) (messages (fst (script_run i (Some s))))"
proof -
  assume nc: "\<not> clear_button i"
  have "prefix (messages s)
          (messages (fst (generate_response (world i) (user_input i) s)))"
    using generate_response_prefix [of s "user_input i" "world i"]
    by (auto simp: prefix_def)
  with nc show ?thesis
    by (auto simp: script_run_def initialise_def Let_def case_prod_unfold split: outcome.splits)
qed

lemma run_script_prefix:
  "\<forall>i\<in>set is. \<not> clear_button i \<Longrightarrow>
     \<exists>s'. run_script (Some s) is = Some s' \<and> prefix (messages s) (messages s')"
proof (induction "is" arbitrary: s)
  case Nil
  then show ?case by simp
next
  case (Cons i rest)
  from Cons.prems have nc: "\<not> clear_button i" and rest: "\<forall>i\<in>set rest. \<not> clear_button i"
    by simp_all
  from Cons.IH [OF rest, of "fst (script_run i (Some s))"]
  obtain s' where s': "run_script (Some (fst (script_run i (Some s)))) rest = Some s'"
    "prefix (messages (fst (script_run i (Some s)))) (messages s')"
    by (elim exE conjE)
  from script_run_prefix [OF nc, of s] s'(2) have "prefix (messages s) (messages s')"
    by (rule prefix_order.trans)
  with s'(1) show ?case by simp
qed

text \<open>
  Claim C7. Over any sequence of script runs in which the clear button is not pressed,
  the message sequence only grows at its end, so the message at index 0 (the system
  message of a session that starts with one) stays where it is and as it is, even when
  the prompt text in the sidebar is edited meanwhile. A reset yields a sequence of length
  exactly 1, a single system message made from the current prompt text; so does the
  first initialisation of a fresh session; and a run with the clear button pressed and
  nothing submitted leaves exactly that one message.
\<close>

theorem system_message_until_clear:
  assumes "\<forall>i\<in>set is. \<not> clear_button i"
    and "messages s = m0 # rest"
  shows "(\<exists>s'. run_script (Some s) is = Some s' \<and> prefix (messages s) (messages s')
              \<and> messages s' ! 0 = m0)
         \<and> messages (clear_conversation sp s) = [SystemMsg sp]
         \<and> length (messages (clear_conversation sp s)) = 1
         \<and> messages (initialise sp None) = [SystemMsg sp]
         \<and> (clear_button j \<and> \<not> submit_button j \<longrightarrow>
              messages (fst (script_run j st)) = [SystemMsg (system_prompt j)])"
proof -
  from run_script_prefix [OF assms(1), of s] obtain s' where
    s': "run_script (Some s) is = Some s'" "prefix (messages s) (messages s')"
    by (elim exE conjE)
  from s'(2) assms(2) have "messages s' ! 0 = m0"
    by (auto simp: prefix_def)
  with s' show ?thesis
    by (simp add: clear_conversation_def initialise_def seed_message_def script_run_def)
qed

theorem system_message_until_clear_witness:
  "run_script None [hello_turn, fever_turn] =
     Some \<lparr>generated = [Some ''The suggested code is MG26'', Some ''The suggested code is MG26''],
           past = [''hello'', ''code fever''],
           messages = [SystemMsg ''You are an assistant to a clinical coder.'', UserMsg ''hello'',
                  UserMsg ''code fever'', AssistantMsg (message tool_request),
                  ToolMsg ''call_1'' ''query_icd_11_api''
                    (RetJson [(''fever'', [(Some ''MG26'', Some ''http://id.who.int/icd/1'')])])],
           model_name = [''gpt-4'', ''gpt-4''], number_tokens = None\<rparr>
   \<and> messages (clear_conversation ''Edited prompt'' s0) = [SystemMsg ''Edited prompt'']"
proof -
  have first: "fst (script_run hello_turn None) =
      \<lparr>generated = [Some ''The suggested code is MG26''], past = [''hello''],
       messages = [SystemMsg ''You are an assistant to a clinical coder.'', UserMsg ''hello''],
       model_name = [''gpt-4''], number_tokens = None\<rparr>"
    by (simp add: script_simps)
  have nc: "\<forall>i\<in>set [fever_turn]. \<not> clear_button i"
    by (simp add: fever_turn_def)
  have ms: "messages (fst (script_run hello_turn None)) =
      SystemMsg ''You are an assistant to a clinical coder.'' # [UserMsg ''hello'']"
    by (simp add: first)
  from system_message_until_clear [OF nc ms, of "''Edited prompt''"] show ?thesis
    apply (simp add: first)
    apply (simp add: script_simps clear_conversation_def)
    done
qed

text \<open>
  Claim C9, as stated: after a successful turn the final assistant text is appended to
  the message sequence sent to the LLM. It is not: after the turn "hello", answered
  directly, the text is in \<^verbatim>\<open>generated\<close> (the display history), and the message
  sequence holds the system and the user message only.
\<close>

theorem final_text_not_in_messages:
  "script_run hello_turn (Some s0) =
     (\<lparr>generated = [Some ''The suggested code is MG26''], past = [''hello''],
       messages = [SystemMsg ''You are an assistant to a clinical coder.'', UserMsg ''hello''],
       model_name = [''gpt-4''], number_tokens = None\<rparr>,
      [ChatCreate [SystemMsg ''You are an assistant to a clinical coder.'', UserMsg ''hello''] True],
      None)"
  by (simp add: script_simps)

text \<open>
  Claim C9, amended: after every successful turn the final assistant text is appended to
  the display history \<^verbatim>\<open>generated\<close> (and the user's text to \<^verbatim>\<open>past\<close>), not to the
  message sequence sent to the LLM. That sequence gains the user message only, or, on a
  tool turn, the user message, the assistant's raw tool request of the first response
  and the tool message; later LLM calls therefore do not see the assistant's prior final
  answers.
\<close>

theorem final_text_goes_to_generated:
  assumes "generate_response (world i) (user_input i) s = (s1, tr, Returned output t p c)"
    and "\<not> turn_fails (world i) (user_input i) s"
    and "submit_button i" and "user_input i \<noteq> []" and "\<not> clear_button i"
  shows "fst (script_run i (Some s)) =
           s1\<lparr>past := past s @ [user_input i], generated := generated s @ [output],
              model_name := model_name s @ [deployment (world i)]\<rparr>
         \<and> (messages s1 = messages s @ [UserMsg (user_input i)]
              \<or> (\<exists>c1 cid nm r.
                    chat_create (world i) (messages s @ [UserMsg (user_input i)]) True = Inr c1
                    \<and> messages s1 = messages s @ [UserMsg (user_input i), AssistantMsg (message c1),
                                        ToolMsg cid nm r]))"
proof -
  have fields: "past s1 = past s" "generated s1 = generated s" "model_name s1 = model_name s"
    using assms(1)
    by (auto simp: generate_response_def try_block_def Let_def append_message_def case_prod_unfold
             split: sum.splits option.splits list.splits if_splits)
  have msgs: "messages s1 = messages s @ [UserMsg (user_input i)]
              \<or> (\<exists>c1 cid nm r.
                    chat_create (world i) (messages s @ [UserMsg (user_input i)]) True = Inr c1
                    \<and> messages s1 = messages s @ [UserMsg (user_input i), AssistantMsg (message c1),
                                        ToolMsg cid nm r])"
    using assms(1,2)
    by (auto simp: generate_response_def turn_fails_def try_block_def Let_def append_message_def
               case_prod_unfold
             split: sum.splits option.splits list.splits if_splits)
  show ?thesis using assms fields msgs
    by (simp add: script_run_def initialise_def)
qed

theorem final_text_goes_to_generated_witness:
  "fst (script_run fever_turn (Some s0)) =
     \<lparr>generated = [Some ''The suggested code is MG26''], past = [''code fever''],
      messages = [SystemMsg ''You are an assistant to a clinical coder.'', UserMsg ''code fever'',
                  AssistantMsg (message tool_request),
                  ToolMsg ''call_1'' ''query_icd_11_api''
                    (RetJson [(''fever'', [(Some ''MG26'', Some ''http://id.who.int/icd/1'')])])],
      model_name = [''gpt-4''], number_tokens = None\<rparr>"
proof -
  have g: "generate_response (world fever_turn) (user_input fever_turn) s0 =
     (s0\<lparr>messages := messages s0 @ [UserMsg ''code fever'', AssistantMsg (message tool_request),
           ToolMsg ''call_1'' ''query_icd_11_api''
             (RetJson [(''fever'', [(Some ''MG26'', Some ''http://id.who.int/icd/1'')])])]\<rparr>,
      [ChatCreate (messages s0 @ [UserMsg ''code fever'']) True,
       Call ''query_icd_11_api'' (PyStr ''fever''),
       Post TOKEN_ENDPOINT, Get (search_url ''fever'') ''t0'',
       ChatCreate (messages s0 @ [UserMsg ''code fever'', AssistantMsg (message tool_request),
           ToolMsg ''call_1'' ''query_icd_11_api''
             (RetJson [(''fever'', [(Some ''MG26'', Some ''http://id.who.int/icd/1'')])])]) False],
      Returned (Some ''The suggested code is MG26'') (Some 30) (Some 20) (Some 10))"
    by (simp add: script_simps)
  have nf: "\<not> turn_fails (world fever_turn) (user_input fever_turn) s0"
    by (simp add: turn_fails_def script_simps)
  from final_text_goes_to_generated [OF g nf] show ?thesis
    by (simp add: script_simps)
qed

end
